theory Spec2Isabelle
  imports Complex_Main
begin

section \<open>Data model\<close>

text \<open>
  The booking and payment services (\<^verbatim>\<open>services/session-service/src/main.js\<close> and the
  payment service's \<^verbatim>\<open>main.js\<close>) are Express handlers over one PostgreSQL database
  whose schema is \<^verbatim>\<open>scripts/init-db.sql\<close>. A table is the list of its rows, a row is a
  record with the columns of the schema, and a handler is a function from the database
  (and the values the environment supplies: the fresh UUID, the clock) to the HTTP reply
  and the database afterwards.

  Instants (\<^verbatim>\<open>TIMESTAMPTZ\<close>, JavaScript \<^verbatim>\<open>Date\<close>) are integers, milliseconds since the
  epoch; an \<^verbatim>\<open>INTERVAL\<close> is an integer number of milliseconds. Status columns are
  strings, as in the schema (\<^verbatim>\<open>VARCHAR(20)\<close>) and in the request bodies; a string is the
  list of its characters. Identifiers are taken to be well-formed UUID literals, and the
  connection to the database to be up: a malformed identifier or a lost connection (which
  the handlers answer with 500) is outside this model. The ranges of the column types
  \<^verbatim>\<open>INTERVAL\<close>, \<^verbatim>\<open>TIMESTAMPTZ\<close> and \<^verbatim>\<open>VARCHAR(50)\<close> are part of it. Console logging is left
  out.
\<close>

type_synonym uuid = string
type_synonym instant = int

record booking =
  b_id :: uuid
  player_id :: uuid
  coach_id :: uuid
  starts_at :: instant
  duration :: int
  b_status :: string
  timezone :: string
  b_created_at :: instant
  b_updated_at :: instant

record payment_intent =
  pi_id :: uuid
  booking_id :: uuid
  provider :: string
  pi_status :: string
  amount :: real
  currency :: string
  provider_intent_id :: string
  pi_created_at :: instant
  pi_updated_at :: instant

text \<open>
  The database: of \<^verbatim>\<open>users\<close> and \<^verbatim>\<open>coaches\<close> only the primary keys matter here (the
  foreign keys of \<^verbatim>\<open>bookings\<close> point at them).
\<close>

record db =
  users :: "uuid list"
  coaches :: "uuid list"
  bookings :: "booking list"
  payment_intents :: "payment_intent list"

text \<open>The error replies of the handlers: 400, 404, 409 and 500, each with its message.\<close>

datatype http_error =
  BadRequest string
| NotFound string
| Conflict string
| InternalError string

text \<open>
  JavaScript truthiness of a request field that holds a string: \<^verbatim>\<open>undefined\<close> and the
  empty string are falsy.
\<close>

definition truthy :: "string option \<Rightarrow> bool" where
  "truthy v = (case v of None \<Rightarrow> False | Some s \<Rightarrow> s \<noteq> [])"

section \<open>Session service\<close>

subsection \<open>POST /bookings\<close>

record create_booking_req =
  playerId :: "string option"
  coachId :: "string option"
  startsAt :: "instant option"
  durationMinutes :: "int option"
  req_timezone :: "string option"

text \<open>
  The conflict query of the handler:
  \<^verbatim>\<open>SELECT id FROM bookings WHERE coach_id = $1 AND starts_at <= $2
     AND (starts_at + duration) > $2 AND status NOT IN ('cancelled', 'completed')\<close>
  with \<^verbatim>\<open>$1 = coachId\<close> and \<^verbatim>\<open>$2 = startsAt\<close>.
\<close>

definition conflictCheck :: "booking list \<Rightarrow> uuid \<Rightarrow> instant \<Rightarrow> booking list" where
  "conflictCheck rows c t =
     filter (\<lambda>b. coach_id b = c \<and> starts_at b \<le> t \<and> starts_at b + duration b > t
                \<and> b_status b \<notin> set [''cancelled'', ''completed'']) rows"

text \<open>
  The column types of the schema, as PostgreSQL 15 (the repository's \<^verbatim>\<open>postgres:15-alpine\<close>)
  has them. A \<^verbatim>\<open>TIMESTAMPTZ\<close> is an instant from 4714-11-24 BC up to, not including,
  294277-01-01; reading or computing an instant outside raises \<^verbatim>\<open>timestamp out of range\<close>.
  An \<^verbatim>\<open>INTERVAL\<close> of minutes is a signed 64-bit number of microseconds; a text that
  denotes more raises \<^verbatim>\<open>interval field value out of range\<close>. A text with the character
  NUL is refused; a text longer than the \<open>n\<close> characters of a \<^verbatim>\<open>VARCHAR(n)\<close> column is
  refused unless the characters in excess are all spaces, and is then cut to \<open>n\<close> characters.
\<close>

definition timestamptz_in_range :: "instant \<Rightarrow> bool" where
  "timestamptz_in_range t = (- 210866803200000 \<le> t \<and> t < 9224318016000000)"

definition interval_in_range :: "int \<Rightarrow> bool" where
  "interval_in_range ms = (- 9223372036854775808 \<le> ms * 1000 \<and> ms * 1000 \<le> 9223372036854775807)"

definition varchar_fits :: "nat \<Rightarrow> string \<Rightarrow> bool" where
  "varchar_fits n s = (CHR 0x00 \<notin> set s \<and> list_all (\<lambda>c. c = CHR '' '') (drop n s))"

text \<open>
  When the conflict query raises: \<^verbatim>\<open>$2\<close> is no \<^verbatim>\<open>TIMESTAMPTZ\<close>, or the sum
  \<^verbatim>\<open>starts_at + duration\<close> of a row leaves the range. PostgreSQL evaluates the four
  conditions of the \<^verbatim>\<open>WHERE\<close> clause cheapest first, so it computes the sum only for the
  rows that satisfy the other three.
\<close>

definition conflictCheck_raises :: "booking list \<Rightarrow> uuid \<Rightarrow> instant \<Rightarrow> bool" where
  "conflictCheck_raises rows c t =
     (if timestamptz_in_range t
      then filter (\<lambda>b. coach_id b = c \<and> starts_at b \<le> t
                     \<and> b_status b \<notin> set [''cancelled'', ''completed'']
                     \<and> \<not> timestamptz_in_range (starts_at b + duration b)) rows \<noteq> []
      else True)"

text \<open>
  \<^verbatim>\<open>INSERT INTO bookings\<close>. The statement raises (\<open>None\<close>) when the row violates the
  primary key on \<^verbatim>\<open>id\<close> or a foreign key (\<^verbatim>\<open>player_id REFERENCES users(id)\<close>,
  \<^verbatim>\<open>coach_id REFERENCES coaches(id)\<close>), or when a parameter is no value of its column:
  \<^verbatim>\<open>starts_at TIMESTAMPTZ\<close>, \<^verbatim>\<open>duration INTERVAL\<close>, \<^verbatim>\<open>timezone VARCHAR(50)\<close>. The row stored,
  which \<^verbatim>\<open>RETURNING *\<close> gives back, has the time zone cut to 50 characters.
\<close>

definition stored_row :: "booking \<Rightarrow> booking" where
  "stored_row b = b\<lparr>timezone := take 50 (timezone b)\<rparr>"

definition insert_booking :: "db \<Rightarrow> booking \<Rightarrow> db option" where
  "insert_booking d b =
     (if b_id b \<notin> set (map b_id (bookings d)) \<and> player_id b \<in> set (users d)
         \<and> coach_id b \<in> set (coaches d)
         \<and> timestamptz_in_range (starts_at b) \<and> interval_in_range (duration b)
         \<and> varchar_fits 50 (timezone b)
      then Some (d\<lparr>bookings := bookings d @ [stored_row b]\<rparr>)
      else None)"

text \<open>The interval \<^verbatim>\<open>`${durationMinutes} minutes`\<close>, in milliseconds.\<close>

definition minutes :: "int \<Rightarrow> int" where
  "minutes m = m * 60000"

text \<open>
  The handler. \<open>bookingId\<close> is the value of \<^verbatim>\<open>uuidv4()\<close>, \<open>now\<close> the database's
  \<^verbatim>\<open>CURRENT_TIMESTAMP\<close> (the default of \<^verbatim>\<open>created_at\<close> and \<^verbatim>\<open>updated_at\<close>). A query that
  raises is caught and answered with 500. The reply 201 carries the inserted row.
\<close>

definition new_booking :: "uuid \<Rightarrow> instant \<Rightarrow> uuid \<Rightarrow> uuid \<Rightarrow> instant \<Rightarrow> create_booking_req \<Rightarrow> booking" where
  "new_booking bookingId now p c t req =
     \<lparr>b_id = bookingId, player_id = p, coach_id = c, starts_at = t,
      duration = minutes (case durationMinutes req of None \<Rightarrow> 60 | Some m \<Rightarrow> m),
      b_status = ''confirmed'',
      timezone = (case req_timezone req of None \<Rightarrow> ''UTC'' | Some z \<Rightarrow> z),
      b_created_at = now, b_updated_at = now\<rparr>"

definition post_bookings :: "db \<Rightarrow> uuid \<Rightarrow> instant \<Rightarrow> create_booking_req \<Rightarrow> (http_error + booking) \<times> db" where
  "post_bookings d bookingId now req =
     (case (playerId req, coachId req, startsAt req) of
        (Some p, Some c, Some t) \<Rightarrow>
          if p = [] \<or> c = []
          then (Inl (BadRequest ''Player ID, Coach ID, and start time are required''), d)
          else if conflictCheck_raises (bookings d) c t
          then (Inl (InternalError ''Failed to create booking''), d)
          else if conflictCheck (bookings d) c t \<noteq> []
          then (Inl (Conflict ''Time slot already booked''), d)
          else (case insert_booking d (new_booking bookingId now p c t req) of
                  None \<Rightarrow> (Inl (InternalError ''Failed to create booking''), d)
                | Some d' \<Rightarrow> (Inr (stored_row (new_booking bookingId now p c t req)), d'))
      | _ \<Rightarrow> (Inl (BadRequest ''Player ID, Coach ID, and start time are required''), d))"

subsection \<open>POST /bookings, statement by statement\<close>

text \<open>
  The handler awaits its two queries one after the other, with no transaction around
  them. Between the two, the event loop runs other handlers, and the one database client
  sends the queries of all handlers in the order they were issued. The handler is
  therefore two atomic steps: the validation with the conflict query, which ends the
  request with an error or goes on with the player, the coach and the start; and the
  insert with the reply.
\<close>

definition post_bookings_select :: "db \<Rightarrow> create_booking_req \<Rightarrow> http_error + (uuid \<times> uuid \<times> instant)" where
  "post_bookings_select d req =
     (case (playerId req, coachId req, startsAt req) of
        (Some p, Some c, Some t) \<Rightarrow>
          if p = [] \<or> c = []
          then Inl (BadRequest ''Player ID, Coach ID, and start time are required'')
          else if conflictCheck_raises (bookings d) c t
          then Inl (InternalError ''Failed to create booking'')
          else if conflictCheck (bookings d) c t \<noteq> []
          then Inl (Conflict ''Time slot already booked'')
          else Inr (p, c, t)
      | _ \<Rightarrow> Inl (BadRequest ''Player ID, Coach ID, and start time are required''))"

definition post_bookings_insert :: "db \<Rightarrow> uuid \<Rightarrow> instant \<Rightarrow> create_booking_req \<Rightarrow> uuid \<Rightarrow> uuid \<Rightarrow> instant \<Rightarrow> (http_error + booking) \<times> db" where
  "post_bookings_insert d bookingId now req p c t =
     (case insert_booking d (new_booking bookingId now p c t req) of
        None \<Rightarrow> (Inl (InternalError ''Failed to create booking''), d)
      | Some d' \<Rightarrow> (Inr (stored_row (new_booking bookingId now p c t req)), d'))"

text \<open>
  A call is a request with the UUID and the clock value its insert will use. A handler
  in flight is at its start, between its two queries, or has replied.
\<close>

record call =
  c_bookingId :: uuid
  c_now :: instant
  c_req :: create_booking_req

datatype phase =
  Start
| Checked uuid uuid instant
| Replied "http_error + booking"

fun step :: "call \<Rightarrow> phase \<Rightarrow> db \<Rightarrow> phase \<times> db" where
  "step k Start d =
     (case post_bookings_select d (c_req k) of
        Inl e \<Rightarrow> (Replied (Inl e), d)
      | Inr (p, c, t) \<Rightarrow> (Checked p c t, d))"
| "step k (Checked p c t) d =
     (case post_bookings_insert d (c_bookingId k) (c_now k) (c_req k) p c t of
        (r, d') \<Rightarrow> (Replied r, d'))"
| "step k (Replied r) d = (Replied r, d)"

text \<open>
  Two calls in flight and a schedule: the list of whose query the database runs next.
\<close>

datatype turn = TurnA | TurnB

fun run :: "call \<Rightarrow> call \<Rightarrow> turn list \<Rightarrow> phase \<times> phase \<times> db \<Rightarrow> phase \<times> phase \<times> db" where
  "run ka kb [] s = s"
| "run ka kb (TurnA # sch) (pa, pb, d) =
     (case step ka pa d of (pa', d') \<Rightarrow> run ka kb sch (pa', pb, d'))"
| "run ka kb (TurnB # sch) (pa, pb, d) =
     (case step kb pb d of (pb', d') \<Rightarrow> run ka kb sch (pa, pb', d'))"

subsection \<open>PUT /bookings/:id/status\<close>

definition validStatuses :: "string list" where
  "validStatuses = [''confirmed'', ''in_progress'', ''completed'', ''cancelled'']"

text \<open>
  \<^verbatim>\<open>UPDATE bookings SET status = $1, updated_at = CURRENT_TIMESTAMP WHERE id = $2
     RETURNING *\<close>: the table afterwards, and the rows returned.
\<close>

definition set_status :: "string \<Rightarrow> instant \<Rightarrow> booking \<Rightarrow> booking" where
  "set_status s now b = b\<lparr>b_status := s, b_updated_at := now\<rparr>"

definition update_status :: "booking list \<Rightarrow> string \<Rightarrow> instant \<Rightarrow> uuid \<Rightarrow> booking list" where
  "update_status rows s now i = map (\<lambda>b. if b_id b = i then set_status s now b else b) rows"

definition returning :: "booking list \<Rightarrow> uuid \<Rightarrow> booking list" where
  "returning rows i = filter (\<lambda>b. b_id b = i) rows"

text \<open>
  The handler; \<open>status\<close> is the field of the request body. Every value of
  \<open>validStatuses\<close> passes the schema's \<^verbatim>\<open>CHECK\<close> on \<^verbatim>\<open>status\<close>, so the update cannot throw.
\<close>

definition put_booking_status :: "db \<Rightarrow> instant \<Rightarrow> uuid \<Rightarrow> string option \<Rightarrow> (http_error + booking) \<times> db" where
  "put_booking_status d now i status =
     (case status of
        None \<Rightarrow> (Inl (BadRequest ''Status is required''), d)
      | Some s \<Rightarrow>
          if s = [] then (Inl (BadRequest ''Status is required''), d)
          else if s \<notin> set validStatuses then (Inl (BadRequest ''Invalid status''), d)
          else (case returning (update_status (bookings d) s now i) i of
                  [] \<Rightarrow> (Inl (NotFound ''Booking not found''), d\<lparr>bookings := update_status (bookings d) s now i\<rparr>)
                | row # _ \<Rightarrow> (Inr row, d\<lparr>bookings := update_status (bookings d) s now i\<rparr>)))"

subsection \<open>POST /bookings/:id/cancel\<close>

record cancel_reply =
  cr_message :: string
  cr_booking :: "booking option"
  refundEligible :: bool

text \<open>
  \<^verbatim>\<open>const hoursUntilStart = (startsAt - now) / (1000 * 60 * 60)\<close>. The difference of two
  dates is an integer number of milliseconds; the quotient is compared with 2 and 24 only,
  and for an integer \<open>x\<close> below \<open>2\<^sup>5\<^sup>3\<close> the double \<open>x / 3600000\<close> is below 2 (at least 24)
  exactly when the real quotient is, so the quotient is taken in the reals.
\<close>

definition hoursUntilStart :: "instant \<Rightarrow> instant \<Rightarrow> real" where
  "hoursUntilStart startsAt' now = real_of_int (startsAt' - now) / (1000 * 60 * 60)"

text \<open>
  The handler. \<open>now\<close> is \<^verbatim>\<open>new Date()\<close>, used for the database's \<^verbatim>\<open>CURRENT_TIMESTAMP\<close>
  of the same request as well. \<^verbatim>\<open>result.rows[0]\<close> of the update is \<^verbatim>\<open>undefined\<close> (\<open>None\<close>)
  when no row was updated.
\<close>

definition post_booking_cancel :: "db \<Rightarrow> instant \<Rightarrow> uuid \<Rightarrow> (http_error + cancel_reply) \<times> db" where
  "post_booking_cancel d now i =
     (case filter (\<lambda>b. b_id b = i) (bookings d) of
        [] \<Rightarrow> (Inl (NotFound ''Booking not found''), d)
      | bookingData # _ \<Rightarrow>
          if hoursUntilStart (starts_at bookingData) now < 2 \<and> b_status bookingData = ''confirmed''
          then (Inl (BadRequest ''Cannot cancel booking less than 2 hours before start time''), d)
          else (Inr \<lparr>cr_message = ''Booking cancelled successfully'',
                     cr_booking = (case returning (update_status (bookings d) ''cancelled'' now i) i of
                                     [] \<Rightarrow> None | row # _ \<Rightarrow> Some row),
                     refundEligible = (hoursUntilStart (starts_at bookingData) now \<ge> 24)\<rparr>,
                d\<lparr>bookings := update_status (bookings d) ''cancelled'' now i\<rparr>))"

section \<open>Payment service\<close>

text \<open>
  The mock provider's \<^verbatim>\<open>confirm\<close> and \<^verbatim>\<open>capture\<close> always answer \<^verbatim>\<open>{id, status: 'succeeded'}\<close>.
  The three handlers read the intent by id, check its status (capture and refund) and
  run \<^verbatim>\<open>UPDATE payment_intents SET status = ..., updated_at = CURRENT_TIMESTAMP WHERE id = $1\<close>.
\<close>

record payment_reply =
  pr_status :: string
  pr_message :: string

record refund_reply =
  rr_message :: string
  refundAmount :: real

definition set_pi_status :: "string \<Rightarrow> instant \<Rightarrow> payment_intent \<Rightarrow> payment_intent" where
  "set_pi_status s now p = p\<lparr>pi_status := s, pi_updated_at := now\<rparr>"

definition update_pi_status :: "payment_intent list \<Rightarrow> string \<Rightarrow> instant \<Rightarrow> uuid \<Rightarrow> payment_intent list" where
  "update_pi_status rows s now i = map (\<lambda>p. if pi_id p = i then set_pi_status s now p else p) rows"

definition post_confirm :: "db \<Rightarrow> instant \<Rightarrow> uuid \<Rightarrow> (http_error + payment_reply) \<times> db" where
  "post_confirm d now i =
     (case filter (\<lambda>p. pi_id p = i) (payment_intents d) of
        [] \<Rightarrow> (Inl (NotFound ''Payment intent not found''), d)
      | payment # _ \<Rightarrow>
          (Inr \<lparr>pr_status = ''succeeded'', pr_message = ''Payment authorized successfully''\<rparr>,
           d\<lparr>payment_intents := update_pi_status (payment_intents d) ''authorized'' now i\<rparr>))"

definition post_capture :: "db \<Rightarrow> instant \<Rightarrow> uuid \<Rightarrow> (http_error + payment_reply) \<times> db" where
  "post_capture d now i =
     (case filter (\<lambda>p. pi_id p = i) (payment_intents d) of
        [] \<Rightarrow> (Inl (NotFound ''Payment intent not found''), d)
      | payment # _ \<Rightarrow>
          if pi_status payment \<noteq> ''authorized''
          then (Inl (BadRequest ''Payment must be authorized before capture''), d)
          else (Inr \<lparr>pr_status = ''succeeded'', pr_message = ''Payment captured successfully''\<rparr>,
                d\<lparr>payment_intents := update_pi_status (payment_intents d) ''captured'' now i\<rparr>))"

text \<open>
  \<^verbatim>\<open>const refundAmount = amount || payment.amount\<close>: a missing amount and the amount 0
  are falsy.
\<close>

definition or_amount :: "real option \<Rightarrow> real \<Rightarrow> real" where
  "or_amount a stored = (case a of None \<Rightarrow> stored | Some x \<Rightarrow> if x = 0 then stored else x)"

definition post_refund :: "db \<Rightarrow> instant \<Rightarrow> uuid \<Rightarrow> real option \<Rightarrow> (http_error + refund_reply) \<times> db" where
  "post_refund d now i amount' =
     (case filter (\<lambda>p. pi_id p = i) (payment_intents d) of
        [] \<Rightarrow> (Inl (NotFound ''Payment intent not found''), d)
      | payment # _ \<Rightarrow>
          if pi_status payment \<noteq> ''captured''
          then (Inl (BadRequest ''Only captured payments can be refunded''), d)
          else (Inr \<lparr>rr_message = ''Refund processed successfully'',
                     refundAmount = or_amount amount' (amount payment)\<rparr>,
                d\<lparr>payment_intents := update_pi_status (payment_intents d) ''refunded'' now i\<rparr>))"

section \<open>The specification's algorithms\<close>

text \<open>
  The conflict test in the specification's words: the requested interval
  \<open>[start, start + duration)\<close> conflicts with a booking \<open>[s, e)\<close> of the same coach whose
  status is not cancelled or completed when \<open>start < e\<close> and \<open>s < start + duration\<close>.
\<close>

definition spec_HasConflict :: "booking list \<Rightarrow> uuid \<Rightarrow> instant \<Rightarrow> int \<Rightarrow> bool" where
  "spec_HasConflict rows c start dur =
     (filter (\<lambda>b. coach_id b = c \<and> b_status b \<notin> set [''cancelled'', ''completed'']
                \<and> start < starts_at b + duration b \<and> starts_at b < start + dur) rows \<noteq> [])"

text \<open>
  The transition table in the specification's words: pending to confirmed, confirmed to
  in\_progress, in\_progress to completed, and pending or confirmed to cancelled.
\<close>

definition spec_transition :: "string \<Rightarrow> string \<Rightarrow> bool" where
  "spec_transition from to =
     ((from, to) \<in> set [(''pending'', ''confirmed''), (''confirmed'', ''in_progress''),
                        (''in_progress'', ''completed''), (''pending'', ''cancelled''),
                        (''confirmed'', ''cancelled'')])"

section \<open>Concrete databases and requests\<close>

text \<open>
  One booking \<open>b1\<close> of player \<open>u1\<close> with coach \<open>c1\<close>, from hour 100 to hour 101 after the
  epoch, and one payment intent \<open>p1\<close> for it, each in a given status.
\<close>

definition ex_booking :: "string \<Rightarrow> booking" where
  "ex_booking s =
     \<lparr>b_id = ''b1'', player_id = ''u1'', coach_id = ''c1'', starts_at = 360000000,
      duration = 3600000, b_status = s, timezone = ''UTC'', b_created_at = 0, b_updated_at = 0\<rparr>"

definition ex_intent :: "string \<Rightarrow> payment_intent" where
  "ex_intent s =
     \<lparr>pi_id = ''p1'', booking_id = ''b1'', provider = ''stripe'', pi_status = s, amount = 50,
      currency = ''USD'', provider_intent_id = ''pi_mock_1'', pi_created_at = 0, pi_updated_at = 0\<rparr>"

definition ex_db :: "string \<Rightarrow> string \<Rightarrow> db" where
  "ex_db bs ps =
     \<lparr>users = [''u1'', ''u2''], coaches = [''c1''], bookings = [ex_booking bs],
      payment_intents = [ex_intent ps]\<rparr>"

definition empty_db :: db where
  "empty_db = \<lparr>users = [''u1'', ''u2''], coaches = [''c1''], bookings = [], payment_intents = []\<rparr>"

text \<open>A request of player \<open>p\<close> for coach \<open>c1\<close> at instant \<open>t\<close> with duration field \<open>m\<close>.\<close>

definition ex_req :: "uuid \<Rightarrow> instant \<Rightarrow> int option \<Rightarrow> create_booking_req" where
  "ex_req p t m =
     \<lparr>playerId = Some p, coachId = Some ''c1'', startsAt = Some t, durationMinutes = m,
      req_timezone = None\<rparr>"

text \<open>Two calls for the same coach and the same hour, by the players \<open>u1\<close> and \<open>u2\<close>.\<close>

definition ex_call :: "uuid \<Rightarrow> uuid \<Rightarrow> call" where
  "ex_call i p = \<lparr>c_bookingId = i, c_now = 0, c_req = ex_req p 360000000 (Some 60)\<rparr>"

section \<open>Properties of the SQL statements\<close>

lemma b_id_set_status: "b_id (set_status s now b) = b_id b"
  by (simp add: set_status_def)

lemma returning_update_status:
  "returning (update_status rows s now i) i = map (set_status s now) (filter (\<lambda>b. b_id b = i) rows)"
  by (induction rows) (simp_all add: returning_def update_status_def b_id_set_status)

lemma update_status_rows:
  "list_all2 (\<lambda>b b'. if b_id b = i then b' = b\<lparr>b_status := s, b_updated_at := now\<rparr> else b' = b)
     rows (update_status rows s now i)"
  by (induction rows) (simp_all add: update_status_def set_status_def)

lemma update_status_pending:
  "s \<in> set validStatuses \<Longrightarrow>
   list_all2 (\<lambda>b b'. b_id b' = b_id b \<and> (b_status b \<noteq> ''pending'' \<longrightarrow> b_status b' \<noteq> ''pending''))
     rows (update_status rows s now i)"
  by (induction rows) (auto simp: update_status_def set_status_def validStatuses_def)

lemma same_rows_pending:
  "list_all2 (\<lambda>b b'. b_id b' = b_id b \<and> (b_status b \<noteq> ''pending'' \<longrightarrow> b_status b' \<noteq> ''pending''))
     rows rows"
  by (simp add: list_all2_same)

lemma pi_id_set_pi_status: "pi_id (set_pi_status s now p) = pi_id p"
  by (simp add: set_pi_status_def)

lemma select_update_pi_status:
  "filter (\<lambda>p. pi_id p = i) (update_pi_status rows s now i)
     = map (set_pi_status s now) (filter (\<lambda>p. pi_id p = i) rows)"
  by (induction rows) (simp_all add: update_pi_status_def pi_id_set_pi_status)

lemma update_pi_status_rows:
  "list_all2 (\<lambda>p p'. if pi_id p = i then p' = p\<lparr>pi_status := s, pi_updated_at := now\<rparr> else p' = p)
     rows (update_pi_status rows s now i)"
  by (induction rows) (simp_all add: update_pi_status_def set_pi_status_def)

lemma update_pi_status_frame:
  "list_all2 (\<lambda>p p'. p' = p\<lparr>pi_status := pi_status p', pi_updated_at := pi_updated_at p'\<rparr>)
     rows (update_pi_status rows s now i)"
  by (induction rows) (simp_all add: update_pi_status_def set_pi_status_def)

lemma same_rows_frame:
  "list_all2 (\<lambda>p p'. p' = p\<lparr>pi_status := pi_status p', pi_updated_at := pi_updated_at p'\<rparr>) rows rows"
  by (simp add: list_all2_same)

lemma update_pi_status_columns:
  "map (\<lambda>p. (amount p, currency p, booking_id p, provider_intent_id p)) (update_pi_status rows s now i)
     = map (\<lambda>p. (amount p, currency p, booking_id p, provider_intent_id p)) rows"
  by (induction rows) (simp_all add: update_pi_status_def set_pi_status_def)

section \<open>Conflict detection\<close>

text \<open>
  What the conflict query selects: the active bookings of the coach whose interval
  \<open>[s, e)\<close> holds the requested start instant. The requested duration is no parameter of
  the query.
\<close>

lemma conflictCheck_iff:
  "(conflictCheck rows c t \<noteq> []) =
     (\<exists>b \<in> set rows. coach_id b = c \<and> b_status b \<noteq> ''cancelled'' \<and> b_status b \<noteq> ''completed''
         \<and> starts_at b \<le> t \<and> t < starts_at b + duration b)"
  by (auto simp: conflictCheck_def filter_empty_conv)

text \<open>
  For a positive requested duration, every conflict the query reports is an overlap in
  the specification's sense. The converse does not hold.
\<close>

lemma conflictCheck_imp_spec_HasConflict:
  assumes "0 < dur" and "conflictCheck rows c t \<noteq> []"
  shows "spec_HasConflict rows c t dur"
proof -
  from assms(2) obtain b where b: "b \<in> set rows" "coach_id b = c"
      "b_status b \<noteq> ''cancelled''" "b_status b \<noteq> ''completed''"
      "starts_at b \<le> t" "t < starts_at b + duration b"
    unfolding conflictCheck_iff by blast
  from b(5) assms(1) have "starts_at b < t + dur" by simp
  with b show ?thesis
    by (auto simp: spec_HasConflict_def filter_empty_conv)
qed

text \<open>
  C1. The conflict checker is to report a conflict exactly when an active booking of the
  coach overlaps the requested half-open interval, in particular when that booking starts
  strictly after the requested start and before its end. At this input it does not: the
  coach's confirmed booking runs from hour 100 to hour 101, the request is for hour 99.5
  to hour 100.5, the query selects no row and the overlapping booking is inserted.
\<close>

theorem conflict_check_misses_later_start:
  "spec_HasConflict (bookings (ex_db ''confirmed'' ''authorized'')) ''c1'' 358200000 (minutes 60)
   \<and> conflictCheck (bookings (ex_db ''confirmed'' ''authorized'')) ''c1'' 358200000 = []
   \<and> post_bookings (ex_db ''confirmed'' ''authorized'') ''b2'' 0 (ex_req ''u2'' 358200000 (Some 60))
       = (Inr ((ex_booking ''confirmed'')\<lparr>b_id := ''b2'', player_id := ''u2'', starts_at := 358200000\<rparr>),
          (ex_db ''confirmed'' ''authorized'')
            \<lparr>bookings := [ex_booking ''confirmed'',
                (ex_booking ''confirmed'')\<lparr>b_id := ''b2'', player_id := ''u2'', starts_at := 358200000\<rparr>]\<rparr>)"
  by (simp add: spec_HasConflict_def conflictCheck_def conflictCheck_raises_def post_bookings_def
      insert_booking_def stored_row_def timestamptz_in_range_def interval_in_range_def
      varchar_fits_def new_booking_def minutes_def ex_db_def ex_booking_def ex_req_def)

section \<open>Creating a booking\<close>

text \<open>
  The handler is its two steps, one after the other.
\<close>

lemma post_bookings_steps:
  "post_bookings d bookingId now req =
     (case post_bookings_select d req of
        Inl e \<Rightarrow> (Inl e, d)
      | Inr (p, c, t) \<Rightarrow> post_bookings_insert d bookingId now req p c t)"
  by (simp add: post_bookings_def post_bookings_select_def post_bookings_insert_def
      split: option.splits)

lemma insert_booking_Some:
  "insert_booking d b = Some d' \<Longrightarrow> d' = d\<lparr>bookings := bookings d @ [stored_row b]\<rparr>"
  by (simp add: insert_booking_def split: if_splits)

text \<open>
  The bounds of the column types in the units of the request: the duration in minutes,
  and the two requests the database refuses although they pass the handler's checks, one
  for 200000000000000 minutes and one with a time zone of 51 letters. Fifty letters and
  a space are accepted and stored as the fifty letters. Then a time zone with the
  character NUL, the starts just outside and just inside the range of \<^verbatim>\<open>TIMESTAMPTZ\<close>,
  and the violations of the primary key and of the two foreign keys.
\<close>

lemma interval_in_range_minutes:
  "interval_in_range (minutes m) = (- 153722867280 \<le> m \<and> m \<le> 153722867280)"
  by (simp add: interval_in_range_def minutes_def) arith

lemma conflictCheck_raises_iff:
  "conflictCheck_raises rows c t =
     (\<not> timestamptz_in_range t
      \<or> (\<exists>b \<in> set rows. coach_id b = c \<and> starts_at b \<le> t \<and> b_status b \<noteq> ''cancelled''
            \<and> b_status b \<noteq> ''completed'' \<and> \<not> timestamptz_in_range (starts_at b + duration b)))"
  by (auto simp: conflictCheck_raises_def filter_empty_conv)

lemma create_booking_database_refuses:
  "post_bookings empty_db ''b1'' 0 (ex_req ''u1'' 360000000 (Some 200000000000000))
     = (Inl (InternalError ''Failed to create booking''), empty_db)
   \<and> post_bookings empty_db ''b1'' 0
       ((ex_req ''u1'' 360000000 (Some 60))
          \<lparr>req_timezone := Some ''Europe/Amsterdam_Europe/Amsterdam_Europe/Amsterdam_''\<rparr>)
     = (Inl (InternalError ''Failed to create booking''), empty_db)
   \<and> post_bookings empty_db ''b1'' 0
       ((ex_req ''u1'' 360000000 (Some 60))
          \<lparr>req_timezone := Some ''Europe/Amsterdam_Europe/Amsterdam_Europe/Amsterdam ''\<rparr>)
     = (Inr ((ex_booking ''confirmed'')\<lparr>timezone := ''Europe/Amsterdam_Europe/Amsterdam_Europe/Amsterdam''\<rparr>),
        empty_db\<lparr>bookings := [(ex_booking ''confirmed'')
                     \<lparr>timezone := ''Europe/Amsterdam_Europe/Amsterdam_Europe/Amsterdam''\<rparr>]\<rparr>)
   \<and> post_bookings empty_db ''b1'' 0
       ((ex_req ''u1'' 360000000 (Some 60))\<lparr>req_timezone := Some [CHR ''U'', CHR 0x00]\<rparr>)
     = (Inl (InternalError ''Failed to create booking''), empty_db)
   \<and> post_bookings empty_db ''b1'' 0 (ex_req ''u1'' 9224318016000000 (Some 60))
     = (Inl (InternalError ''Failed to create booking''), empty_db)
   \<and> post_bookings empty_db ''b1'' 0 (ex_req ''u1'' (- 210866803200001) (Some 60))
     = (Inl (InternalError ''Failed to create booking''), empty_db)
   \<and> fst (post_bookings empty_db ''b1'' 0 (ex_req ''u1'' (- 210866803200000) (Some 60)))
     = Inr ((ex_booking ''confirmed'')\<lparr>starts_at := - 210866803200000\<rparr>)
   \<and> fst (post_bookings empty_db ''b1'' 0 (ex_req ''u1'' 9224318015999999 (Some 60)))
     = Inr ((ex_booking ''confirmed'')\<lparr>starts_at := 9224318015999999\<rparr>)
   \<and> post_bookings (ex_db ''cancelled'' ''refunded'') ''b1'' 0 (ex_req ''u1'' 360000000 (Some 60))
     = (Inl (InternalError ''Failed to create booking''), ex_db ''cancelled'' ''refunded'')
   \<and> post_bookings empty_db ''b1'' 0 (ex_req ''u3'' 360000000 (Some 60))
     = (Inl (InternalError ''Failed to create booking''), empty_db)
   \<and> post_bookings (empty_db\<lparr>coaches := []\<rparr>) ''b1'' 0 (ex_req ''u1'' 360000000 (Some 60))
     = (Inl (InternalError ''Failed to create booking''), empty_db\<lparr>coaches := []\<rparr>)"
  by (simp add: post_bookings_def insert_booking_def stored_row_def new_booking_def minutes_def
      conflictCheck_def conflictCheck_raises_def timestamptz_in_range_def interval_in_range_def
      varchar_fits_def ex_req_def empty_db_def ex_db_def ex_booking_def)

text \<open>
  A booking of minus 4000000000 minutes is accepted; its end lies before the range of
  \<^verbatim>\<open>TIMESTAMPTZ\<close>, and the conflict query of the next request for the coach raises. Once
  that booking is cancelled the query leaves it out before it computes the end, and the
  request is served.
\<close>

lemma conflict_query_raises:
  "fst (post_bookings empty_db ''b1'' 0 (ex_req ''u1'' 360000000 (Some (- 4000000000))))
     = Inr ((ex_booking ''confirmed'')\<lparr>duration := minutes (- 4000000000)\<rparr>)
   \<and> post_bookings
       (empty_db\<lparr>bookings := [(ex_booking ''confirmed'')\<lparr>duration := minutes (- 4000000000)\<rparr>]\<rparr>)
       ''b2'' 0 (ex_req ''u2'' 363600000 (Some 60))
     = (Inl (InternalError ''Failed to create booking''),
        empty_db\<lparr>bookings := [(ex_booking ''confirmed'')\<lparr>duration := minutes (- 4000000000)\<rparr>]\<rparr>)
   \<and> fst (post_bookings
       (empty_db\<lparr>bookings := [(ex_booking ''cancelled'')\<lparr>duration := minutes (- 4000000000)\<rparr>]\<rparr>)
       ''b2'' 0 (ex_req ''u2'' 363600000 (Some 60)))
     = Inr ((ex_booking ''confirmed'')\<lparr>b_id := ''b2'', player_id := ''u2'', starts_at := 363600000\<rparr>)"
  by (simp add: post_bookings_def insert_booking_def stored_row_def new_booking_def minutes_def
      conflictCheck_def conflictCheck_raises_def timestamptz_in_range_def interval_in_range_def
      varchar_fits_def ex_req_def empty_db_def ex_booking_def)

text \<open>
  C2 (as the code has it). A request that passes the required-field check and the
  conflict query, and whose row the database accepts (fresh id, known player and coach,
  duration within the range of \<^verbatim>\<open>INTERVAL\<close>, time zone that fits \<^verbatim>\<open>VARCHAR(50)\<close>), is
  persisted once, directly with status confirmed, and returned. Whatever the request,
  the handler either replies with an error and leaves the database as it was, or has
  appended exactly one booking, confirmed, for a request that passed both checks. It
  calls no payment operation: the payment intents are as before, no booking is stored as
  pending, and there is no authorization failure and no rollback.
\<close>

theorem create_booking_confirmed_directly:
  "(playerId req = Some p \<and> coachId req = Some c \<and> startsAt req = Some t
      \<and> p \<noteq> [] \<and> c \<noteq> []
      \<and> \<not> conflictCheck_raises (bookings d) c t \<and> conflictCheck (bookings d) c t = []
      \<and> bookingId \<notin> set (map b_id (bookings d)) \<and> p \<in> set (users d) \<and> c \<in> set (coaches d)
      \<and> interval_in_range (minutes (case durationMinutes req of None \<Rightarrow> 60 | Some m \<Rightarrow> m))
      \<and> varchar_fits 50 (case req_timezone req of None \<Rightarrow> ''UTC'' | Some z \<Rightarrow> z)
    \<longrightarrow> post_bookings d bookingId now req
           = (Inr (stored_row (new_booking bookingId now p c t req)),
              d\<lparr>bookings := bookings d @ [stored_row (new_booking bookingId now p c t req)]\<rparr>)
        \<and> b_status (stored_row (new_booking bookingId now p c t req)) = ''confirmed'')
   \<and> ((\<exists>e. post_bookings d bookingId now req = (Inl e, d))
        \<or> (\<exists>b. post_bookings d bookingId now req = (Inr b, d\<lparr>bookings := bookings d @ [b]\<rparr>)
              \<and> b_status b = ''confirmed'' \<and> b_id b = bookingId
              \<and> playerId req = Some (player_id b) \<and> coachId req = Some (coach_id b)
              \<and> startsAt req = Some (starts_at b)
              \<and> conflictCheck (bookings d) (coach_id b) (starts_at b) = []))
   \<and> payment_intents (snd (post_bookings d bookingId now req)) = payment_intents d"
proof (intro conjI impI)
  assume a: "playerId req = Some p \<and> coachId req = Some c \<and> startsAt req = Some t
      \<and> p \<noteq> [] \<and> c \<noteq> []
      \<and> \<not> conflictCheck_raises (bookings d) c t \<and> conflictCheck (bookings d) c t = []
      \<and> bookingId \<notin> set (map b_id (bookings d)) \<and> p \<in> set (users d) \<and> c \<in> set (coaches d)
      \<and> interval_in_range (minutes (case durationMinutes req of None \<Rightarrow> 60 | Some m \<Rightarrow> m))
      \<and> varchar_fits 50 (case req_timezone req of None \<Rightarrow> ''UTC'' | Some z \<Rightarrow> z)"
  then have t: "timestamptz_in_range t"
    by (auto simp: conflictCheck_raises_def split: if_splits)
  from a t show "post_bookings d bookingId now req
           = (Inr (stored_row (new_booking bookingId now p c t req)),
              d\<lparr>bookings := bookings d @ [stored_row (new_booking bookingId now p c t req)]\<rparr>)"
    by (simp add: post_bookings_def insert_booking_def new_booking_def)
  show "b_status (stored_row (new_booking bookingId now p c t req)) = ''confirmed''"
    by (simp add: stored_row_def new_booking_def)
next
  show "(\<exists>e. post_bookings d bookingId now req = (Inl e, d))
        \<or> (\<exists>b. post_bookings d bookingId now req = (Inr b, d\<lparr>bookings := bookings d @ [b]\<rparr>)
              \<and> b_status b = ''confirmed'' \<and> b_id b = bookingId
              \<and> playerId req = Some (player_id b) \<and> coachId req = Some (coach_id b)
              \<and> startsAt req = Some (starts_at b)
              \<and> conflictCheck (bookings d) (coach_id b) (starts_at b) = [])"
    by (auto simp: post_bookings_def stored_row_def new_booking_def
        dest!: insert_booking_Some split: option.splits)
next
  show "payment_intents (snd (post_bookings d bookingId now req)) = payment_intents d"
    by (auto simp: post_bookings_def dest!: insert_booking_Some split: option.splits)
qed

text \<open>
  The coach's confirmed booking runs from hour 100 to hour 101 and has an authorized
  payment intent. A request for hour 101 to hour 102 touches it without overlap: it is
  stored as confirmed next to the first, and the payment intent is as it was.
\<close>

theorem create_booking_confirmed_directly_witness:
  "post_bookings (ex_db ''confirmed'' ''authorized'') ''b2'' 0 (ex_req ''u2'' 363600000 None)
     = (Inr ((ex_booking ''confirmed'')\<lparr>b_id := ''b2'', player_id := ''u2'', starts_at := 363600000\<rparr>),
        (ex_db ''confirmed'' ''authorized'')
          \<lparr>bookings := [ex_booking ''confirmed'',
              (ex_booking ''confirmed'')\<lparr>b_id := ''b2'', player_id := ''u2'', starts_at := 363600000\<rparr>]\<rparr>)
   \<and> payment_intents (snd (post_bookings (ex_db ''confirmed'' ''authorized'') ''b2'' 0
        (ex_req ''u2'' 363600000 None))) = [ex_intent ''authorized'']"
  using create_booking_confirmed_directly [where req = "ex_req ''u2'' 363600000 None"
      and p = "''u2''" and c = "''c1''" and t = 363600000 and d = "ex_db ''confirmed'' ''authorized''"
      and bookingId = "''b2''" and now = 0]
  by (simp add: ex_req_def ex_db_def ex_booking_def conflictCheck_def conflictCheck_raises_def
      timestamptz_in_range_def interval_in_range_def varchar_fits_def stored_row_def new_booking_def
      minutes_def)

text \<open>
  C2 as stated fails: the booking is to be persisted as pending and to become confirmed
  only when the payment authorization succeeds. Here a request on a database with no
  payment intent at all ends with the booking persisted as confirmed, no pending booking
  and still no payment intent.
\<close>

theorem create_booking_pending_counterexample:
  "post_bookings empty_db ''b1'' 0 (ex_req ''u1'' 360000000 (Some 60))
     = (Inr (ex_booking ''confirmed''), empty_db\<lparr>bookings := [ex_booking ''confirmed'']\<rparr>)
   \<and> b_status (ex_booking ''confirmed'') \<noteq> ''pending''
   \<and> filter (\<lambda>b. b_status b = ''pending'') (bookings (empty_db\<lparr>bookings := [ex_booking ''confirmed'']\<rparr>)) = []
   \<and> payment_intents (empty_db\<lparr>bookings := [ex_booking ''confirmed'']\<rparr>) = []"
  by (simp add: post_bookings_def insert_booking_def stored_row_def new_booking_def minutes_def
      conflictCheck_def conflictCheck_raises_def timestamptz_in_range_def interval_in_range_def
      varchar_fits_def ex_req_def empty_db_def ex_booking_def)

text \<open>
  C7 (as the code has it). A request is refused as invalid (400, nothing persisted)
  exactly when \<open>playerId\<close>, \<open>coachId\<close> or \<open>startsAt\<close> is missing or empty: with the three
  fields present the reply is never the validation error, whatever the duration and the
  start instant are.
\<close>

theorem create_booking_validation:
  "(\<not> truthy (playerId req) \<or> \<not> truthy (coachId req) \<or> startsAt req = None \<longrightarrow>
      post_bookings d bookingId now req
        = (Inl (BadRequest ''Player ID, Coach ID, and start time are required''), d))
   \<and> (truthy (playerId req) \<and> truthy (coachId req) \<and> startsAt req \<noteq> None \<longrightarrow>
      fst (post_bookings d bookingId now req)
        \<noteq> Inl (BadRequest ''Player ID, Coach ID, and start time are required''))"
  by (auto simp add: post_bookings_def truthy_def split: option.splits)

theorem create_booking_validation_witness:
  "post_bookings empty_db ''b1'' 0 ((ex_req ''u1'' 360000000 (Some 60))\<lparr>playerId := None\<rparr>)
     = (Inl (BadRequest ''Player ID, Coach ID, and start time are required''), empty_db)
   \<and> fst (post_bookings empty_db ''b1'' 0 (ex_req ''u1'' 360000000 (Some 60)))
        \<noteq> Inl (BadRequest ''Player ID, Coach ID, and start time are required'')"
  using create_booking_validation [where req = "(ex_req ''u1'' 360000000 (Some 60))\<lparr>playerId := None\<rparr>"
      and d = empty_db and bookingId = "''b1''" and now = 0]
    create_booking_validation [where req = "ex_req ''u1'' 360000000 (Some 60)"
      and d = empty_db and bookingId = "''b1''" and now = 0]
  by (simp add: ex_req_def truthy_def)

text \<open>
  C7 as stated fails: a non-positive duration or a start in the past is to be refused
  with a validation error. A request for minus 60 minutes is persisted (first conjunct),
  and so is one whose start, hour 100, lies before the current instant 400000000
  (second conjunct).
\<close>

theorem create_booking_validation_counterexample:
  "post_bookings empty_db ''b1'' 0 (ex_req ''u1'' 360000000 (Some (- 60)))
     = (Inr ((ex_booking ''confirmed'')\<lparr>duration := - 3600000\<rparr>),
        empty_db\<lparr>bookings := [(ex_booking ''confirmed'')\<lparr>duration := - 3600000\<rparr>]\<rparr>)
   \<and> post_bookings empty_db ''b1'' 400000000 (ex_req ''u1'' 360000000 (Some 60))
     = (Inr ((ex_booking ''confirmed'')\<lparr>b_created_at := 400000000, b_updated_at := 400000000\<rparr>),
        empty_db\<lparr>bookings := [(ex_booking ''confirmed'')\<lparr>b_created_at := 400000000, b_updated_at := 400000000\<rparr>]\<rparr>)"
  by (simp add: post_bookings_def insert_booking_def stored_row_def new_booking_def minutes_def
      conflictCheck_def conflictCheck_raises_def timestamptz_in_range_def interval_in_range_def
      varchar_fits_def ex_req_def empty_db_def ex_booking_def)

section \<open>Two requests for one slot\<close>

text \<open>
  Run with no other handler in between, the two steps of a call are the handler.
\<close>

lemma run_alone:
  "run ka kb [TurnA, TurnA] (Start, pb, d)
     = (Replied (fst (post_bookings d (c_bookingId ka) (c_now ka) (c_req ka))), pb,
        snd (post_bookings d (c_bookingId ka) (c_now ka) (c_req ka)))"
  by (simp add: post_bookings_steps split: sum.splits prod.splits)

lemma run_alone_second:
  "run ka kb [TurnB, TurnB] (pa, Start, d)
     = (pa, Replied (fst (post_bookings d (c_bookingId kb) (c_now kb) (c_req kb))),
        snd (post_bookings d (c_bookingId kb) (c_now kb) (c_req kb)))"
  by (simp add: post_bookings_steps split: sum.splits prod.splits)

lemma run_append:
  "run ka kb (xs @ ys) s = run ka kb ys (run ka kb xs s)"
proof (induction xs arbitrary: s)
  case Nil
  show ?case by simp
next
  case (Cons x xs)
  obtain pa pb d where s: "s = (pa, pb, d)"
    by (cases s) auto
  show ?case
    by (cases x) (simp_all add: s Cons.IH split: prod.splits)
qed

lemma run_one_after_the_other:
  "run ka kb [TurnA, TurnA, TurnB, TurnB] (Start, Start, d)
     = (Replied (fst (post_bookings d (c_bookingId ka) (c_now ka) (c_req ka))),
        Replied (fst (post_bookings (snd (post_bookings d (c_bookingId ka) (c_now ka) (c_req ka)))
                   (c_bookingId kb) (c_now kb) (c_req kb))),
        snd (post_bookings (snd (post_bookings d (c_bookingId ka) (c_now ka) (c_req ka)))
               (c_bookingId kb) (c_now kb) (c_req kb)))"
proof -
  have "run ka kb ([TurnA, TurnA] @ [TurnB, TurnB]) (Start, Start, d)
      = run ka kb [TurnB, TurnB] (run ka kb [TurnA, TurnA] (Start, Start, d))"
    by (rule run_append)
  then show ?thesis
    by (simp only: run_alone run_alone_second append_Cons append_Nil)
qed

text \<open>
  A successful call went through both steps: its conflict query found the slot free and
  its insert was accepted.
\<close>

lemma post_bookings_Inr:
  assumes "post_bookings d i now req = (Inr b, d')"
  shows "\<exists>p c t. post_bookings_select d req = Inr (p, c, t)
           \<and> insert_booking d (new_booking i now p c t req) = Some d'
           \<and> b = stored_row (new_booking i now p c t req)"
proof (cases "post_bookings_select d req")
  case (Inl e)
  with assms show ?thesis
    by (simp add: post_bookings_steps)
next
  case (Inr pct)
  obtain p c t where pct: "pct = (p, c, t)"
    by (cases pct) auto
  with Inr assms have "post_bookings_insert d i now req p c t = (Inr b, d')"
    by (simp add: post_bookings_steps)
  then have "insert_booking d (new_booking i now p c t req) = Some d'
      \<and> b = stored_row (new_booking i now p c t req)"
    by (simp add: post_bookings_insert_def split: option.splits)
  with Inr pct show ?thesis
    by simp
qed

lemma insert_booking_after:
  assumes "insert_booking d b = Some d1" and "insert_booking d b2 = Some d2"
    and "b_id b \<noteq> b_id b2"
  shows "insert_booking d1 b2 = Some (d\<lparr>bookings := bookings d @ [stored_row b, stored_row b2]\<rparr>)"
proof -
  from assms(1) have d1: "d1 = d\<lparr>bookings := bookings d @ [stored_row b]\<rparr>"
    by (rule insert_booking_Some)
  from assms(2) have ok: "b_id b2 \<notin> set (map b_id (bookings d))" "player_id b2 \<in> set (users d)"
      "coach_id b2 \<in> set (coaches d)" "timestamptz_in_range (starts_at b2)"
      "interval_in_range (duration b2)" "varchar_fits 50 (timezone b2)"
    by (simp_all add: insert_booking_def split: if_splits)
  have "b_id (stored_row b) = b_id b"
    by (simp add: stored_row_def)
  with ok assms(3) show ?thesis
    unfolding d1 by (simp add: insert_booking_def)
qed

text \<open>
  Whenever each of two calls with different ids would succeed on its own, both succeed
  when the two conflict queries run before the two inserts, and both rows are stored.
\<close>

lemma run_interleaved:
  assumes "post_bookings d (c_bookingId ka) (c_now ka) (c_req ka) = (Inr ba, da)"
    and "post_bookings d (c_bookingId kb) (c_now kb) (c_req kb) = (Inr bb, db')"
    and "c_bookingId ka \<noteq> c_bookingId kb"
  shows "run ka kb [TurnA, TurnB, TurnA, TurnB] (Start, Start, d)
           = (Replied (Inr ba), Replied (Inr bb), d\<lparr>bookings := bookings d @ [ba, bb]\<rparr>)"
proof -
  from post_bookings_Inr [OF assms(1)] obtain pa ca ta where
    a: "post_bookings_select d (c_req ka) = Inr (pa, ca, ta)"
       "insert_booking d (new_booking (c_bookingId ka) (c_now ka) pa ca ta (c_req ka)) = Some da"
       "ba = stored_row (new_booking (c_bookingId ka) (c_now ka) pa ca ta (c_req ka))"
    by blast
  from post_bookings_Inr [OF assms(2)] obtain pb cb tb where
    b: "post_bookings_select d (c_req kb) = Inr (pb, cb, tb)"
       "insert_booking d (new_booking (c_bookingId kb) (c_now kb) pb cb tb (c_req kb)) = Some db'"
       "bb = stored_row (new_booking (c_bookingId kb) (c_now kb) pb cb tb (c_req kb))"
    by blast
  have ids: "b_id (new_booking (c_bookingId ka) (c_now ka) pa ca ta (c_req ka))
      \<noteq> b_id (new_booking (c_bookingId kb) (c_now kb) pb cb tb (c_req kb))"
    using assms(3) by (simp add: new_booking_def)
  have second: "insert_booking da (new_booking (c_bookingId kb) (c_now kb) pb cb tb (c_req kb))
      = Some (d\<lparr>bookings := bookings d @ [ba, bb]\<rparr>)"
    using insert_booking_after [OF a(2) b(2) ids] a(3) b(3) by simp
  show ?thesis
    by (simp add: a(1) b(1) a(2) a(3) b(3) second post_bookings_insert_def)
qed


text \<open>
  After a successful call for a positive duration (whose end is a \<^verbatim>\<open>TIMESTAMPTZ\<close>), a
  call for the same coach and the same start is answered 409 and stores nothing.
\<close>

lemma post_bookings_then_conflict:
  assumes first: "post_bookings d ida nowa ra = (Inr ba, da)"
    and pos: "0 < duration ba"
    and fin: "timestamptz_in_range (starts_at ba + duration ba)"
    and same: "coachId rb = coachId ra" "startsAt rb = startsAt ra"
    and player: "truthy (playerId rb)"
  shows "post_bookings da idb nowb rb = (Inl (Conflict ''Time slot already booked''), da)"
proof -
  from post_bookings_Inr [OF first] obtain p c t where
    sel: "post_bookings_select d ra = Inr (p, c, t)"
    and ins: "insert_booking d (new_booking ida nowa p c t ra) = Some da"
    and ba: "ba = stored_row (new_booking ida nowa p c t ra)"
    by blast
  from sel have ra: "coachId ra = Some c" "startsAt ra = Some t" "c \<noteq> []"
      "\<not> conflictCheck_raises (bookings d) c t"
    by (auto simp: post_bookings_select_def split: option.splits if_splits)
  from ins have da: "da = d\<lparr>bookings := bookings d @ [ba]\<rparr>"
    unfolding ba by (rule insert_booking_Some)
  have row: "coach_id ba = c" "starts_at ba = t" "b_status ba = ''confirmed''"
    by (simp_all add: ba stored_row_def new_booking_def)
  from player obtain pb where pb: "playerId rb = Some pb" "pb \<noteq> []"
    by (auto simp: truthy_def split: option.splits)
  from ra(4) fin row have quiet: "\<not> conflictCheck_raises (bookings da) c t"
    by (auto simp: da conflictCheck_raises_def split: if_splits)
  from pos row have found: "conflictCheck (bookings da) c t \<noteq> []"
    by (simp add: da conflictCheck_def)
  from pb same ra quiet found show ?thesis
    by (simp add: post_bookings_def)
qed


text \<open>
  The two schedules side by side: one call after the other, the second is refused;
  conflict queries first, both are accepted.
\<close>

lemma two_requests_one_slot:
  "(post_bookings d (c_bookingId ka) (c_now ka) (c_req ka) = (Inr ba, da)
      \<and> 0 < duration ba \<and> timestamptz_in_range (starts_at ba + duration ba)
      \<and> coachId (c_req kb) = coachId (c_req ka) \<and> startsAt (c_req kb) = startsAt (c_req ka)
      \<and> truthy (playerId (c_req kb))
    \<longrightarrow> run ka kb [TurnA, TurnA, TurnB, TurnB] (Start, Start, d)
         = (Replied (Inr ba), Replied (Inl (Conflict ''Time slot already booked'')), da))
   \<and> (post_bookings d (c_bookingId ka) (c_now ka) (c_req ka) = (Inr ba, da)
      \<and> post_bookings d (c_bookingId kb) (c_now kb) (c_req kb) = (Inr bb, db')
      \<and> c_bookingId ka \<noteq> c_bookingId kb
    \<longrightarrow> run ka kb [TurnA, TurnB, TurnA, TurnB] (Start, Start, d)
         = (Replied (Inr ba), Replied (Inr bb), d\<lparr>bookings := bookings d @ [ba, bb]\<rparr>))"
proof (intro conjI impI)
  assume a: "post_bookings d (c_bookingId ka) (c_now ka) (c_req ka) = (Inr ba, da)
      \<and> 0 < duration ba \<and> timestamptz_in_range (starts_at ba + duration ba)
      \<and> coachId (c_req kb) = coachId (c_req ka) \<and> startsAt (c_req kb) = startsAt (c_req ka)
      \<and> truthy (playerId (c_req kb))"
  then have first: "post_bookings d (c_bookingId ka) (c_now ka) (c_req ka) = (Inr ba, da)"
    and pos: "0 < duration ba"
    and fin: "timestamptz_in_range (starts_at ba + duration ba)"
    and same: "coachId (c_req kb) = coachId (c_req ka)" "startsAt (c_req kb) = startsAt (c_req ka)"
    and player: "truthy (playerId (c_req kb))"
    by simp_all
  have "post_bookings da (c_bookingId kb) (c_now kb) (c_req kb)
      = (Inl (Conflict ''Time slot already booked''), da)"
    by (rule post_bookings_then_conflict [OF first pos fin same player])
  with a show "run ka kb [TurnA, TurnA, TurnB, TurnB] (Start, Start, d)
         = (Replied (Inr ba), Replied (Inl (Conflict ''Time slot already booked'')), da)"
    by (simp only: run_one_after_the_other fst_conv snd_conv)
next
  assume "post_bookings d (c_bookingId ka) (c_now ka) (c_req ka) = (Inr ba, da)
      \<and> post_bookings d (c_bookingId kb) (c_now kb) (c_req kb) = (Inr bb, db')
      \<and> c_bookingId ka \<noteq> c_bookingId kb"
  then have first: "post_bookings d (c_bookingId ka) (c_now ka) (c_req ka) = (Inr ba, da)"
    and second: "post_bookings d (c_bookingId kb) (c_now kb) (c_req kb) = (Inr bb, db')"
    and ids: "c_bookingId ka \<noteq> c_bookingId kb"
    by simp_all
  show "run ka kb [TurnA, TurnB, TurnA, TurnB] (Start, Start, d)
         = (Replied (Inr ba), Replied (Inr bb), d\<lparr>bookings := bookings d @ [ba, bb]\<rparr>)"
    by (rule run_interleaved [OF first second ids])
qed

text \<open>
  C8. Of two requests for the same coach and the same interval that execute
  concurrently, exactly one is to succeed and the other to fail with the conflict error,
  the conflict check and the insert being one atomic step. They are two steps. When the
  database runs the conflict query of the first call, then that of the second, then the
  two inserts, both queries find the slot free and both calls are answered 201: the coach
  has two confirmed bookings for hour 100 to hour 101 (first conjunct). One call after
  the other, the second is answered 409 (second conjunct).
\<close>

theorem concurrent_requests_double_book:
  "run (ex_call ''b1'' ''u1'') (ex_call ''b2'' ''u2'') [TurnA, TurnB, TurnA, TurnB]
       (Start, Start, empty_db)
     = (Replied (Inr (ex_booking ''confirmed'')),
        Replied (Inr ((ex_booking ''confirmed'')\<lparr>b_id := ''b2'', player_id := ''u2''\<rparr>)),
        empty_db\<lparr>bookings := [ex_booking ''confirmed'',
                     (ex_booking ''confirmed'')\<lparr>b_id := ''b2'', player_id := ''u2''\<rparr>]\<rparr>)
   \<and> run (ex_call ''b1'' ''u1'') (ex_call ''b2'' ''u2'') [TurnA, TurnA, TurnB, TurnB]
       (Start, Start, empty_db)
     = (Replied (Inr (ex_booking ''confirmed'')),
        Replied (Inl (Conflict ''Time slot already booked'')),
        empty_db\<lparr>bookings := [ex_booking ''confirmed'']\<rparr>)"
  by (simp add: post_bookings_select_def post_bookings_insert_def insert_booking_def stored_row_def
      new_booking_def minutes_def conflictCheck_def conflictCheck_raises_def
      timestamptz_in_range_def interval_in_range_def varchar_fits_def
      ex_call_def ex_req_def empty_db_def ex_booking_def)

section \<open>Status updates and cancellation\<close>

text \<open>
  C4 (as the code has it). No transition table is enforced. For an existing booking in
  any status, the status update accepts every target among confirmed, in\_progress,
  completed and cancelled and writes it; a target outside the list, or none, is refused
  with 400 and the database is unchanged. The cancel operation cancels a booking in any
  status, a confirmed booking less than two hours before its start excepted.
\<close>

theorem status_update_unrestricted:
  assumes "filter (\<lambda>b. b_id b = i) (bookings d) = bk # rest"
  shows "(s \<in> set validStatuses \<longrightarrow>
            put_booking_status d now i (Some s)
              = (Inr (bk\<lparr>b_status := s, b_updated_at := now\<rparr>),
                 d\<lparr>bookings := update_status (bookings d) s now i\<rparr>)
            \<and> list_all2 (\<lambda>b b'. if b_id b = i then b' = b\<lparr>b_status := s, b_updated_at := now\<rparr> else b' = b)
                 (bookings d) (update_status (bookings d) s now i))
    \<and> (s \<notin> set validStatuses \<longrightarrow> (\<exists>e. put_booking_status d now i (Some s) = (Inl (BadRequest e), d)))
    \<and> put_booking_status d now i None = (Inl (BadRequest ''Status is required''), d)
    \<and> (\<not> (hoursUntilStart (starts_at bk) now < 2 \<and> b_status bk = ''confirmed'') \<longrightarrow>
         (\<exists>reply. fst (post_booking_cancel d now i) = Inr reply)
         \<and> list_all2 (\<lambda>b b'. if b_id b = i then b' = b\<lparr>b_status := ''cancelled'', b_updated_at := now\<rparr> else b' = b)
                    (bookings d) (bookings (snd (post_booking_cancel d now i))))"
  using assms
  by (auto simp add: put_booking_status_def post_booking_cancel_def returning_update_status
      update_status_rows set_status_def validStatuses_def)

theorem status_update_unrestricted_witness:
  "put_booking_status (ex_db ''pending'' ''authorized'') 5 ''b1'' (Some ''completed'')
     = (Inr ((ex_booking ''completed'')\<lparr>b_updated_at := 5\<rparr>),
        (ex_db ''pending'' ''authorized'')\<lparr>bookings := [(ex_booking ''completed'')\<lparr>b_updated_at := 5\<rparr>]\<rparr>)
   \<and> put_booking_status (ex_db ''pending'' ''authorized'') 5 ''b1'' None
     = (Inl (BadRequest ''Status is required''), ex_db ''pending'' ''authorized'')
   \<and> bookings (snd (post_booking_cancel (ex_db ''pending'' ''authorized'') 5 ''b1''))
     = [(ex_booking ''cancelled'')\<lparr>b_updated_at := 5\<rparr>]"
  using status_update_unrestricted [where i = "''b1''" and d = "ex_db ''pending'' ''authorized''"
      and bk = "ex_booking ''pending''" and rest = "[]" and s = "''completed''" and now = 5]
  by (simp add: put_booking_status_def post_booking_cancel_def returning_def hoursUntilStart_def
      ex_db_def ex_booking_def validStatuses_def update_status_def set_status_def)

text \<open>
  C4 as stated fails: a transition outside the table is to be refused and to leave the
  booking unchanged. The status update moves a completed booking back to confirmed, and
  the cancel operation cancels a booking that is in progress.
\<close>

theorem status_update_table_counterexample:
  "\<not> spec_transition ''completed'' ''confirmed''
   \<and> put_booking_status (ex_db ''completed'' ''captured'') 5 ''b1'' (Some ''confirmed'')
     = (Inr ((ex_booking ''confirmed'')\<lparr>b_updated_at := 5\<rparr>),
        (ex_db ''completed'' ''captured'')\<lparr>bookings := [(ex_booking ''confirmed'')\<lparr>b_updated_at := 5\<rparr>]\<rparr>)
   \<and> \<not> spec_transition ''in_progress'' ''cancelled''
   \<and> post_booking_cancel (ex_db ''in_progress'' ''captured'') 360000000 ''b1''
     = (Inr \<lparr>cr_message = ''Booking cancelled successfully'',
             cr_booking = Some ((ex_booking ''cancelled'')\<lparr>b_updated_at := 360000000\<rparr>),
             refundEligible = False\<rparr>,
        (ex_db ''in_progress'' ''captured'')\<lparr>bookings := [(ex_booking ''cancelled'')\<lparr>b_updated_at := 360000000\<rparr>]\<rparr>)"
  by (simp add: spec_transition_def put_booking_status_def post_booking_cancel_def validStatuses_def
      returning_def update_status_def set_status_def hoursUntilStart_def ex_db_def ex_booking_def)

text \<open>
  C10. The status update never moves a booking to pending: the target pending is
  refused as invalid and changes nothing, a request is accepted only for a target among
  confirmed, in\_progress, completed and cancelled, and after any request every booking
  that was not pending is still not pending.
\<close>

theorem put_status_never_pending:
  "put_booking_status d now i (Some ''pending'') = (Inl (BadRequest ''Invalid status''), d)
   \<and> ((\<exists>row. fst (put_booking_status d now i st) = Inr row) \<longrightarrow>
        (\<exists>s. st = Some s \<and> s \<in> set validStatuses))
   \<and> set validStatuses = {''confirmed'', ''in_progress'', ''completed'', ''cancelled''}
   \<and> list_all2 (\<lambda>b b'. b_id b' = b_id b \<and> (b_status b \<noteq> ''pending'' \<longrightarrow> b_status b' \<noteq> ''pending''))
        (bookings d) (bookings (snd (put_booking_status d now i st)))"
proof (intro conjI)
  show "put_booking_status d now i (Some ''pending'') = (Inl (BadRequest ''Invalid status''), d)"
    by (simp add: put_booking_status_def validStatuses_def)
  show "(\<exists>row. fst (put_booking_status d now i st) = Inr row) \<longrightarrow>
        (\<exists>s. st = Some s \<and> s \<in> set validStatuses)"
    by (auto simp: put_booking_status_def split: option.splits if_splits list.splits)
  show "set validStatuses = {''confirmed'', ''in_progress'', ''completed'', ''cancelled''}"
    by (simp add: validStatuses_def)
  show "list_all2 (\<lambda>b b'. b_id b' = b_id b \<and> (b_status b \<noteq> ''pending'' \<longrightarrow> b_status b' \<noteq> ''pending''))
        (bookings d) (bookings (snd (put_booking_status d now i st)))"
    by (auto simp: put_booking_status_def same_rows_pending update_status_pending
        split: option.splits list.splits)
qed

theorem put_status_never_pending_witness:
  "put_booking_status (ex_db ''confirmed'' ''authorized'') 5 ''b1'' (Some ''pending'')
     = (Inl (BadRequest ''Invalid status''), ex_db ''confirmed'' ''authorized'')
   \<and> fst (put_booking_status (ex_db ''confirmed'' ''authorized'') 5 ''b1'' (Some ''in_progress''))
     = Inr ((ex_booking ''in_progress'')\<lparr>b_updated_at := 5\<rparr>)
   \<and> ''in_progress'' \<in> set validStatuses
   \<and> map b_status (bookings (snd (put_booking_status (ex_db ''confirmed'' ''authorized'') 5 ''b1'' (Some ''in_progress''))))
     = [''in_progress'']"
  using put_status_never_pending [where d = "ex_db ''confirmed'' ''authorized''" and now = 5
      and i = "''b1''" and st = "Some ''in_progress''"]
  by (simp add: put_booking_status_def validStatuses_def returning_def update_status_def
      set_status_def ex_db_def ex_booking_def)

text \<open>
  The hours until the start are the milliseconds from now to the start over 3600000, so
  the thresholds of 2 and 24 hours are 7200000 and 86400000 milliseconds.
\<close>

lemma hoursUntilStart_less_2:
  "(hoursUntilStart s now < 2) = (s - now < 7200000)"
proof -
  have "(real_of_int (s - now) / 3600000 < 2) = (real_of_int (s - now) < 7200000)"
    by (simp add: divide_less_eq)
  also have "\<dots> = (s - now < 7200000)"
    by linarith
  finally show ?thesis
    by (simp add: hoursUntilStart_def)
qed

lemma hoursUntilStart_ge_24:
  "(24 \<le> hoursUntilStart s now) = (86400000 \<le> s - now)"
proof -
  have "(24 \<le> real_of_int (s - now) / 3600000) = (86400000 \<le> real_of_int (s - now))"
    by (simp add: le_divide_eq)
  also have "\<dots> = (86400000 \<le> s - now)"
    by linarith
  finally show ?thesis
    by (simp add: hoursUntilStart_def)
qed

text \<open>
  C5. For a cancellation request on an existing booking, with \<open>start - now\<close> the time
  until the start in milliseconds: when it is less than 2 hours (7200000 ms) and the
  booking is confirmed, the request is refused with the cancellation-window error and
  nothing changes; otherwise the booking becomes cancelled and the refund eligibility
  flag of the reply is true exactly when it is at least 24 hours (86400000 ms). The
  handler's \<open>hoursUntilStart\<close> is that time in hours.
\<close>

theorem cancel_policy:
  assumes "filter (\<lambda>b. b_id b = i) (bookings d) = bk # rest"
  shows "(if starts_at bk - now < 7200000 \<and> b_status bk = ''confirmed''
          then post_booking_cancel d now i
                 = (Inl (BadRequest ''Cannot cancel booking less than 2 hours before start time''), d)
          else (\<exists>reply. fst (post_booking_cancel d now i) = Inr reply
                  \<and> refundEligible reply = (86400000 \<le> starts_at bk - now)
                  \<and> cr_booking reply = Some (bk\<lparr>b_status := ''cancelled'', b_updated_at := now\<rparr>))
               \<and> list_all2 (\<lambda>b b'. if b_id b = i then b' = b\<lparr>b_status := ''cancelled'', b_updated_at := now\<rparr> else b' = b)
                    (bookings d) (bookings (snd (post_booking_cancel d now i))))
         \<and> hoursUntilStart (starts_at bk) now * 3600000 = real_of_int (starts_at bk - now)"
  using assms
  by (simp add: post_booking_cancel_def returning_update_status update_status_rows set_status_def
      hoursUntilStart_less_2 hoursUntilStart_ge_24)
    (simp add: hoursUntilStart_def)

text \<open>
  The booking starts at hour 100. Cancelling one hour before is refused, and so is
  cancelling one millisecond less than two hours before; cancelling exactly two hours
  before succeeds without refund eligibility, as does cancelling one millisecond less
  than 24 hours before; cancelling exactly 24 hours before, or 25 hours before,
  succeeds with refund eligibility.
\<close>

theorem cancel_policy_witness:
  "post_booking_cancel (ex_db ''confirmed'' ''authorized'') 356400000 ''b1''
     = (Inl (BadRequest ''Cannot cancel booking less than 2 hours before start time''),
        ex_db ''confirmed'' ''authorized'')
   \<and> post_booking_cancel (ex_db ''confirmed'' ''authorized'') 270000000 ''b1''
     = (Inr \<lparr>cr_message = ''Booking cancelled successfully'',
             cr_booking = Some ((ex_booking ''cancelled'')\<lparr>b_updated_at := 270000000\<rparr>),
             refundEligible = True\<rparr>,
        (ex_db ''confirmed'' ''authorized'')\<lparr>bookings := [(ex_booking ''cancelled'')\<lparr>b_updated_at := 270000000\<rparr>]\<rparr>)
   \<and> post_booking_cancel (ex_db ''confirmed'' ''authorized'') 352800001 ''b1''
     = (Inl (BadRequest ''Cannot cancel booking less than 2 hours before start time''),
        ex_db ''confirmed'' ''authorized'')
   \<and> fst (post_booking_cancel (ex_db ''confirmed'' ''authorized'') 352800000 ''b1'')
     = Inr \<lparr>cr_message = ''Booking cancelled successfully'',
            cr_booking = Some ((ex_booking ''cancelled'')\<lparr>b_updated_at := 352800000\<rparr>),
            refundEligible = False\<rparr>
   \<and> fst (post_booking_cancel (ex_db ''confirmed'' ''authorized'') 273600001 ''b1'')
     = Inr \<lparr>cr_message = ''Booking cancelled successfully'',
            cr_booking = Some ((ex_booking ''cancelled'')\<lparr>b_updated_at := 273600001\<rparr>),
            refundEligible = False\<rparr>
   \<and> fst (post_booking_cancel (ex_db ''confirmed'' ''authorized'') 273600000 ''b1'')
     = Inr \<lparr>cr_message = ''Booking cancelled successfully'',
            cr_booking = Some ((ex_booking ''cancelled'')\<lparr>b_updated_at := 273600000\<rparr>),
            refundEligible = True\<rparr>"
  using cancel_policy [where i = "''b1''" and d = "ex_db ''confirmed'' ''authorized''"
      and bk = "ex_booking ''confirmed''" and rest = "[]" and now = 356400000]
    cancel_policy [where i = "''b1''" and d = "ex_db ''confirmed'' ''authorized''"
      and bk = "ex_booking ''confirmed''" and rest = "[]" and now = 270000000]
    cancel_policy [where i = "''b1''" and d = "ex_db ''confirmed'' ''authorized''"
      and bk = "ex_booking ''confirmed''" and rest = "[]" and now = 352800001]
    cancel_policy [where i = "''b1''" and d = "ex_db ''confirmed'' ''authorized''"
      and bk = "ex_booking ''confirmed''" and rest = "[]" and now = 352800000]
    cancel_policy [where i = "''b1''" and d = "ex_db ''confirmed'' ''authorized''"
      and bk = "ex_booking ''confirmed''" and rest = "[]" and now = 273600001]
    cancel_policy [where i = "''b1''" and d = "ex_db ''confirmed'' ''authorized''"
      and bk = "ex_booking ''confirmed''" and rest = "[]" and now = 273600000]
  by (simp add: post_booking_cancel_def returning_def update_status_def set_status_def
      hoursUntilStart_def ex_db_def ex_booking_def)

section \<open>Payment intents\<close>

text \<open>
  C3 (as the code has it). For an existing payment intent, capture succeeds exactly when
  its status is authorized, and the intent is then captured. In every other status,
  captured included, capture is refused with 400 and the database is unchanged: a second
  capture after a successful one is an error and leaves the intent captured.
\<close>

theorem capture_only_authorized:
  assumes "filter (\<lambda>p. pi_id p = i) (payment_intents d) = pay # rest"
  shows "((\<exists>r. fst (post_capture d now i) = Inr r) = (pi_status pay = ''authorized''))
    \<and> (pi_status pay \<noteq> ''authorized'' \<longrightarrow>
         post_capture d now i = (Inl (BadRequest ''Payment must be authorized before capture''), d))
    \<and> (pi_status pay = ''authorized'' \<longrightarrow>
         list_all2 (\<lambda>p p'. if pi_id p = i then p' = p\<lparr>pi_status := ''captured'', pi_updated_at := now\<rparr> else p' = p)
             (payment_intents d) (payment_intents (snd (post_capture d now i)))
         \<and> post_capture (snd (post_capture d now i)) now' i
             = (Inl (BadRequest ''Payment must be authorized before capture''), snd (post_capture d now i)))"
  using assms
  by (simp add: post_capture_def update_pi_status_rows select_update_pi_status set_pi_status_def)

theorem capture_only_authorized_witness:
  "post_capture (ex_db ''confirmed'' ''authorized'') 5 ''p1''
     = (Inr \<lparr>pr_status = ''succeeded'', pr_message = ''Payment captured successfully''\<rparr>,
        (ex_db ''confirmed'' ''authorized'')\<lparr>payment_intents := [(ex_intent ''captured'')\<lparr>pi_updated_at := 5\<rparr>]\<rparr>)
   \<and> post_capture (snd (post_capture (ex_db ''confirmed'' ''authorized'') 5 ''p1'')) 6 ''p1''
     = (Inl (BadRequest ''Payment must be authorized before capture''),
        (ex_db ''confirmed'' ''authorized'')\<lparr>payment_intents := [(ex_intent ''captured'')\<lparr>pi_updated_at := 5\<rparr>]\<rparr>)"
  using capture_only_authorized [where i = "''p1''" and d = "ex_db ''confirmed'' ''authorized''"
      and pay = "ex_intent ''authorized''" and rest = "[]" and now = 5 and now' = 6]
  by (simp add: post_capture_def update_pi_status_def set_pi_status_def ex_db_def ex_intent_def)

text \<open>
  C3 as stated fails: capture on an intent that is already captured is to return the
  existing result rather than an error. The handler answers 400.
\<close>

theorem capture_idempotent_counterexample:
  "post_capture (ex_db ''in_progress'' ''captured'') 5 ''p1''
     = (Inl (BadRequest ''Payment must be authorized before capture''),
        ex_db ''in_progress'' ''captured'')"
  by (simp add: post_capture_def ex_db_def ex_intent_def)

text \<open>
  C6. For an existing payment intent, refund succeeds exactly when its status is
  captured; in any other status it is an error and the database is unchanged. With no
  amount in the request the refund amount is the stored amount, with an amount (other
  than 0) it is that amount, and after a successful refund, full or partial, the intent
  is refunded.
\<close>

theorem refund_only_captured:
  assumes "filter (\<lambda>p. pi_id p = i) (payment_intents d) = pay # rest"
  shows "((\<exists>r. fst (post_refund d now i a) = Inr r) = (pi_status pay = ''captured''))
    \<and> (pi_status pay \<noteq> ''captured'' \<longrightarrow>
         post_refund d now i a = (Inl (BadRequest ''Only captured payments can be refunded''), d))
    \<and> (pi_status pay = ''captured'' \<longrightarrow>
         fst (post_refund d now i None)
           = Inr \<lparr>rr_message = ''Refund processed successfully'', refundAmount = amount pay\<rparr>
         \<and> (\<forall>x. x \<noteq> 0 \<longrightarrow> fst (post_refund d now i (Some x))
           = Inr \<lparr>rr_message = ''Refund processed successfully'', refundAmount = x\<rparr>)
         \<and> list_all2 (\<lambda>p p'. if pi_id p = i then p' = p\<lparr>pi_status := ''refunded'', pi_updated_at := now\<rparr> else p' = p)
             (payment_intents d) (payment_intents (snd (post_refund d now i a))))"
  using assms
  by (simp add: post_refund_def or_amount_def update_pi_status_rows)

theorem refund_only_captured_witness:
  "post_refund (ex_db ''completed'' ''captured'') 5 ''p1'' None
     = (Inr \<lparr>rr_message = ''Refund processed successfully'', refundAmount = 50\<rparr>,
        (ex_db ''completed'' ''captured'')\<lparr>payment_intents := [(ex_intent ''refunded'')\<lparr>pi_updated_at := 5\<rparr>]\<rparr>)
   \<and> post_refund (ex_db ''completed'' ''captured'') 5 ''p1'' (Some 20)
     = (Inr \<lparr>rr_message = ''Refund processed successfully'', refundAmount = 20\<rparr>,
        (ex_db ''completed'' ''captured'')\<lparr>payment_intents := [(ex_intent ''refunded'')\<lparr>pi_updated_at := 5\<rparr>]\<rparr>)
   \<and> post_refund (ex_db ''completed'' ''authorized'') 5 ''p1'' None
     = (Inl (BadRequest ''Only captured payments can be refunded''), ex_db ''completed'' ''authorized'')"
  using refund_only_captured [where i = "''p1''" and d = "ex_db ''completed'' ''captured''"
      and pay = "ex_intent ''captured''" and rest = "[]" and now = 5 and a = "Some 20"]
    refund_only_captured [where i = "''p1''" and d = "ex_db ''completed'' ''authorized''"
      and pay = "ex_intent ''authorized''" and rest = "[]" and now = 5 and a = None]
  by (simp add: post_refund_def or_amount_def update_pi_status_def set_pi_status_def ex_db_def
      ex_intent_def)

text \<open>
  C9. Capture and refund (and confirm) change of a payment intent only the status and
  the updated timestamp: row by row, the table afterwards is the table before with those
  two columns possibly changed, so the amount, the currency, the booking reference and
  the provider's intent id of every intent are as before.
\<close>

theorem capture_refund_frame:
  "list_all2 (\<lambda>p p'. p' = p\<lparr>pi_status := pi_status p', pi_updated_at := pi_updated_at p'\<rparr>)
     (payment_intents d) (payment_intents (snd (post_capture d now i)))
   \<and> list_all2 (\<lambda>p p'. p' = p\<lparr>pi_status := pi_status p', pi_updated_at := pi_updated_at p'\<rparr>)
     (payment_intents d) (payment_intents (snd (post_refund d now i a)))
   \<and> list_all2 (\<lambda>p p'. p' = p\<lparr>pi_status := pi_status p', pi_updated_at := pi_updated_at p'\<rparr>)
     (payment_intents d) (payment_intents (snd (post_confirm d now i)))
   \<and> map (\<lambda>p. (amount p, currency p, booking_id p, provider_intent_id p))
       (payment_intents (snd (post_capture d now i)))
     = map (\<lambda>p. (amount p, currency p, booking_id p, provider_intent_id p)) (payment_intents d)
   \<and> map (\<lambda>p. (amount p, currency p, booking_id p, provider_intent_id p))
       (payment_intents (snd (post_refund d now i a)))
     = map (\<lambda>p. (amount p, currency p, booking_id p, provider_intent_id p)) (payment_intents d)"
  by (simp add: post_capture_def post_refund_def post_confirm_def same_rows_frame
      update_pi_status_frame update_pi_status_columns split: list.splits)

theorem capture_refund_frame_witness:
  "map (\<lambda>p. (amount p, currency p, booking_id p, provider_intent_id p))
       (payment_intents (snd (post_capture (ex_db ''confirmed'' ''authorized'') 5 ''p1'')))
     = [(50, ''USD'', ''b1'', ''pi_mock_1'')]
   \<and> map (\<lambda>p. (amount p, currency p, booking_id p, provider_intent_id p))
       (payment_intents (snd (post_refund (ex_db ''confirmed'' ''captured'') 5 ''p1'' (Some 20))))
     = [(50, ''USD'', ''b1'', ''pi_mock_1'')]
   \<and> map pi_status (payment_intents (snd (post_capture (ex_db ''confirmed'' ''authorized'') 5 ''p1'')))
     = [''captured'']"
  using capture_refund_frame [where d = "ex_db ''confirmed'' ''authorized''" and now = 5
      and i = "''p1''" and a = None]
    capture_refund_frame [where d = "ex_db ''confirmed'' ''captured''" and now = 5
      and i = "''p1''" and a = "Some 20"]
  by (simp add: post_capture_def post_refund_def update_pi_status_def set_pi_status_def ex_db_def
      ex_intent_def)

end
